theory Spec2Isabelle
  imports Main "HOL-Library.AList"
begin

section \<open>Python values and helpers used by utils/test\_runners.py\<close>

text \<open>
  The result of a run is a Python dictionary from key strings to values of mixed type
  (bool, int, str).  Values are a tagged union, the dictionary is a partial map, and the
  process environment is an association list of name and value.
\<close>

datatype pyval = PyNone | PyBool bool | PyInt int | PyStr string

datatype py_error = KeyError string | OSError string

type_synonym result_dict = "string \<rightharpoonup> pyval"

type_synonym environ = "(string \<times> string) list"

text \<open>Python truthiness, as used by \<open>if results.get(...)\<close>.\<close>

fun truthy :: "pyval \<Rightarrow> bool" where
  "truthy PyNone = False"
| "truthy (PyBool b) = b"
| "truthy (PyInt i) = (i \<noteq> 0)"
| "truthy (PyStr s) = (s \<noteq> [])"

text \<open>\<open>str(n)\<close> for an integer: decimal digits, a minus sign for negatives.\<close>

definition digit_char :: "nat \<Rightarrow> char" where
  "digit_char d = ''0123456789'' ! d"

function str_nat :: "nat \<Rightarrow> string" where
  "str_nat n = (if n < 10 then [digit_char n] else str_nat (n div 10) @ [digit_char (n mod 10)])"
  by pat_completeness auto
termination
  by (relation "measure id") auto

definition str_int :: "int \<Rightarrow> string" where
  "str_int i = (if i < 0 then CHR ''-'' # str_nat (nat (- i)) else str_nat (nat i))"

text \<open>What \<open>str.format\<close> and an f-string insert for a value (\<open>format(v, '')\<close>).\<close>

fun format_value :: "pyval \<Rightarrow> string" where
  "format_value PyNone = ''None''"
| "format_value (PyBool b) = (if b then ''True'' else ''False'')"
| "format_value (PyInt i) = str_int i"
| "format_value (PyStr s) = s"

text \<open>\<open>results.get(key)\<close> and \<open>results.get(key, default)\<close>.\<close>

definition dict_get :: "result_dict \<Rightarrow> string \<Rightarrow> pyval" where
  "dict_get d k = (case d k of None \<Rightarrow> PyNone | Some v \<Rightarrow> v)"

definition dict_get_default :: "result_dict \<Rightarrow> string \<Rightarrow> pyval \<Rightarrow> pyval" where
  "dict_get_default d k dflt = (case d k of None \<Rightarrow> dflt | Some v \<Rightarrow> v)"

text \<open>\<open>results[key]\<close> raises KeyError on a missing key.\<close>

definition dict_item :: "result_dict \<Rightarrow> string \<Rightarrow> py_error + pyval" where
  "dict_item d k = (case d k of None \<Rightarrow> Inl (KeyError k) | Some v \<Rightarrow> Inr v)"

text \<open>\<open>sep.join(xs)\<close>.\<close>

fun join :: "string \<Rightarrow> string list \<Rightarrow> string" where
  "join sep [] = []"
| "join sep [x] = x"
| "join sep (x # y # ys) = x @ sep @ join sep (y # ys)"

text \<open>\<open>s.endswith(suf)\<close> and \<open>p.replace("*", "")\<close>.\<close>

definition endswith :: "string \<Rightarrow> string \<Rightarrow> bool" where
  "endswith s suf = (length suf \<le> length s \<and> drop (length s - length suf) s = suf)"

definition replace_star :: "string \<Rightarrow> string" where
  "replace_star p = filter (\<lambda>c. c \<noteq> CHR ''*'') p"

section \<open>The process boundary\<close>

text \<open>
  \<open>subprocess.run(cmd, cwd=..., capture_output=True, text=True, env=...)\<close> has three
  outcomes.  \<open>Completed rc out err\<close>: the child ran to its end with return code \<open>rc\<close> and
  its two captured streams decoded as text.  \<open>Undecodable rc e\<close>: the child ran to its end
  with return code \<open>rc\<close>, but a captured stream is not valid text, and \<open>text=True\<close> makes
  the call raise \<open>UnicodeDecodeError\<close> with text \<open>e\<close>.  \<open>Raised e\<close>: the call raised
  before any child ran (\<open>OSError\<close> when the program cannot be started, \<open>ValueError\<close>), with
  text \<open>e\<close>.  All the exceptions are of class \<open>Exception\<close>, and the source keeps \<open>str(e)\<close>.
  The operating system is a parameter: a function from the calls made so far and the
  present call to the outcome.  \<open>path_str p\<close> is \<open>str(Path(p))\<close>, the text of a path after
  \<open>pathlib\<close> has normalised it.
  Every call is appended to the log \<open>spawned\<close>, every \<open>print\<close> to \<open>console\<close>;
  \<open>files\<close> holds the text files written, and \<open>fs_writable\<close> says which paths
  \<open>open(path, "w")\<close> can open.
\<close>

datatype proc_outcome = Completed int string string | Undecodable int string | Raised string

text \<open>The return code of the child, when a child ran.\<close>

fun child_exit_code :: "proc_outcome \<Rightarrow> int option" where
  "child_exit_code (Completed rc out err) = Some rc"
| "child_exit_code (Undecodable rc e) = Some rc"
| "child_exit_code (Raised e) = None"

record spawn_call =
  cmd :: "string list"
  cwd :: string
  env :: environ

record world =
  sys_executable :: string
  os_environ :: environ
  os_cwd :: string
  path_str :: "string \<Rightarrow> string"
  watchdog_installed :: bool
  subprocess_run :: "spawn_call list \<Rightarrow> spawn_call \<Rightarrow> proc_outcome"
  spawned :: "spawn_call list"
  console :: "string list"
  fs_writable :: "string \<Rightarrow> bool"
  files :: "string \<rightharpoonup> string"

definition print :: "string \<Rightarrow> world \<Rightarrow> world" where
  "print s w = w\<lparr>console := console w @ [s]\<rparr>"

section \<open>TestRunner\<close>

record test_runner =
  base_dir :: string
  runner_results :: result_dict

text \<open>
  \<open>Path(base_dir) if base_dir else Path.cwd()\<close>: None and the empty string are falsy, and
  \<open>subprocess.run\<close> gets the text of the path.
\<close>

definition TestRunner_init :: "world \<Rightarrow> string option \<Rightarrow> test_runner" where
  "TestRunner_init w base_dir_arg =
     \<lparr>base_dir = (case base_dir_arg of
                     None \<Rightarrow> os_cwd w
                   | Some d \<Rightarrow> if d = [] then os_cwd w else path_str w d),
      runner_results = Map.empty\<rparr>"

text \<open>
  The command, working directory and environment that \<open>_run_pytest\<close> hands to
  \<open>subprocess.run\<close>; \<open>env or os.environ.copy()\<close> falls back on None and on the empty dict.
\<close>

definition pytest_cmd :: "world \<Rightarrow> string list \<Rightarrow> string list" where
  "pytest_cmd w args = [sys_executable w, ''-m'', ''pytest''] @ args"

definition pytest_call :: "world \<Rightarrow> test_runner \<Rightarrow> string list \<Rightarrow> environ option \<Rightarrow> spawn_call" where
  "pytest_call w self args env_arg =
     \<lparr>cmd = pytest_cmd w args,
      cwd = base_dir self,
      env = (case env_arg of
               None \<Rightarrow> os_environ w
             | Some e \<Rightarrow> if e = [] then os_environ w else e)\<rparr>"

definition run_pytest ::
  "world \<Rightarrow> test_runner \<Rightarrow> string list \<Rightarrow> environ option \<Rightarrow> result_dict \<times> world" where
  "run_pytest w self args env_arg =
     (let command = pytest_cmd w args;
          call = pytest_call w self args env_arg;
          w' = w\<lparr>spawned := spawned w @ [call]\<rparr>
      in case subprocess_run w (spawned w) call of
           Completed rc out err \<Rightarrow>
             ([''success'' \<mapsto> PyBool (rc = 0),
               ''returncode'' \<mapsto> PyInt rc,
               ''stdout'' \<mapsto> PyStr out,
               ''stderr'' \<mapsto> PyStr err,
               ''command'' \<mapsto> PyStr (join '' '' command)], w')
         | Undecodable rc e \<Rightarrow>
             ([''success'' \<mapsto> PyBool False,
               ''error'' \<mapsto> PyStr e,
               ''command'' \<mapsto> PyStr (join '' '' command)], w')
         | Raised e \<Rightarrow>
             ([''success'' \<mapsto> PyBool False,
               ''error'' \<mapsto> PyStr e,
               ''command'' \<mapsto> PyStr (join '' '' command)], w'))"

definition run_smoke_tests :: "world \<Rightarrow> test_runner \<Rightarrow> result_dict \<times> world" where
  "run_smoke_tests w self = run_pytest w self [''-m'', ''smoke'', ''-v''] None"

definition run_api_tests :: "world \<Rightarrow> test_runner \<Rightarrow> result_dict \<times> world" where
  "run_api_tests w self = run_pytest w self [''-m'', ''api'', ''-v''] None"

definition run_ui_tests :: "world \<Rightarrow> test_runner \<Rightarrow> result_dict \<times> world" where
  "run_ui_tests w self = run_pytest w self [''-m'', ''ui'', ''-v''] None"

definition run_integration_tests :: "world \<Rightarrow> test_runner \<Rightarrow> result_dict \<times> world" where
  "run_integration_tests w self = run_pytest w self [''-m'', ''integration'', ''-v''] None"

definition run_performance_tests :: "world \<Rightarrow> test_runner \<Rightarrow> result_dict \<times> world" where
  "run_performance_tests w self = run_pytest w self [''-m'', ''slow'', ''-v'', ''--tb=short''] None"

definition run_parallel_tests :: "world \<Rightarrow> test_runner \<Rightarrow> int \<Rightarrow> result_dict \<times> world" where
  "run_parallel_tests w self workers = run_pytest w self [''-n'', str_int workers, ''-v''] None"

definition run_with_coverage :: "world \<Rightarrow> test_runner \<Rightarrow> int \<Rightarrow> result_dict \<times> world" where
  "run_with_coverage w self min_coverage =
     (let args = [''--cov=src'',
                  ''--cov-report=html'',
                  ''--cov-report=term-missing'',
                  ''--cov-fail-under='' @ str_int min_coverage,
                  ''-v'']
      in run_pytest w self args None)"

definition run_browser_specific_tests :: "world \<Rightarrow> test_runner \<Rightarrow> string \<Rightarrow> result_dict \<times> world" where
  "run_browser_specific_tests w self browser =
     (let env0 = os_environ w;
          env1 = AList.update ''PLAYWRIGHT_BROWSER'' browser env0
      in run_pytest w self [''-v''] (Some env1))"

section \<open>ContinuousTestRunner\<close>

text \<open>
  A modification event as the file watcher hands it to \<open>on_modified\<close>: the path that
  changed and whether it is a directory.
\<close>

record fs_event =
  src_path :: string
  is_directory :: bool

record continuous_test_runner =
  test_dir :: string
  runner :: test_runner

definition ContinuousTestRunner_init :: "world \<Rightarrow> string \<Rightarrow> continuous_test_runner" where
  "ContinuousTestRunner_init w test_dir_arg =
     \<lparr>test_dir = path_str w test_dir_arg, runner = TestRunner_init w None\<rparr>"

text \<open>The two status lines start with U+2705 and U+274C, written here as UTF-8 bytes.\<close>

definition tests_passed_line :: string where
  "tests_passed_line = [CHR 0xE2, CHR 0x9C, CHR 0x85] @ '' Tests passed!''"

definition tests_failed_line :: string where
  "tests_failed_line = [CHR 0xE2, CHR 0x9D, CHR 0x8C] @ '' Tests failed!''"

text \<open>The condition of \<open>TestEventHandler.on_modified\<close>.\<close>

definition event_selected :: "string list \<Rightarrow> fs_event \<Rightarrow> bool" where
  "event_selected patterns event =
     (\<not> is_directory event \<and>
      list_ex (\<lambda>p. endswith (src_path event) (replace_star p)) patterns)"

definition on_modified :: "world \<Rightarrow> test_runner \<Rightarrow> string list \<Rightarrow> fs_event \<Rightarrow> py_error + world" where
  "on_modified w self_runner patterns event =
     (if event_selected patterns event then
        (let w1 = print (''File changed: '' @ src_path event) w;
             w2 = print ''Running tests...'' w1;
             (result, w3) = run_smoke_tests w2 self_runner
         in case dict_item result ''success'' of
              Inl e \<Rightarrow> Inl e
            | Inr v \<Rightarrow>
                if truthy v then Inr (print tests_passed_line w3)
                else Inr (print (format_value (dict_get_default result ''stderr'' (PyStr [])))
                           (print tests_failed_line w3)))
      else Inr w)"

text \<open>
  The observer hands the events to the handler one after another; an exception in the
  handler ends the dispatching.
\<close>

fun dispatch_events :: "world \<Rightarrow> test_runner \<Rightarrow> string list \<Rightarrow> fs_event list \<Rightarrow> py_error + world" where
  "dispatch_events w self_runner patterns [] = Inr w"
| "dispatch_events w self_runner patterns (event # events) =
     (case on_modified w self_runner patterns event of
        Inl e \<Rightarrow> Inl e
      | Inr w' \<Rightarrow> dispatch_events w' self_runner patterns events)"

text \<open>
  \<open>watch_and_run\<close>, for a watch session in which the observer delivers \<open>events\<close> before the
  keyboard interrupt: the main thread only sleeps until then.
\<close>

definition default_patterns :: "string list option \<Rightarrow> string list" where
  "default_patterns patterns_arg =
     (case patterns_arg of
        None \<Rightarrow> [''*.py'']
      | Some ps \<Rightarrow> if ps = [] then [''*.py''] else ps)"

definition watch_and_run ::
  "world \<Rightarrow> continuous_test_runner \<Rightarrow> string list option \<Rightarrow> fs_event list \<Rightarrow> py_error + world" where
  "watch_and_run w self patterns_arg events =
     (if \<not> watchdog_installed w then
        Inr (print ''watchdog package required for file watching. Install with: pip install watchdog'' w)
      else
        (let patterns = default_patterns patterns_arg;
             w1 = print (''Watching '' @ test_dir self @ '' for changes... Press Ctrl+C to stop.'') w
         in case dispatch_events w1 (runner self) patterns events of
              Inl e \<Rightarrow> Inl e
            | Inr w2 \<Rightarrow> Inr (print ''\<newline>Stopped watching for changes.'' w2)))"










text \<open>The number of test runs a watch session has started, read off the log.\<close>

definition runs_started :: "py_error + world \<Rightarrow> nat" where
  "runs_started r = (case r of Inl e \<Rightarrow> 0 | Inr w \<Rightarrow> length (spawned w))"

section \<open>create\_test\_report\<close>

text \<open>
  The text of \<open>html_template\<close> between its replacement fields, with the doubled braces of
  the style sheet already single, and the two halves of the f-string of the error section.
\<close>

definition template_0 :: string where
  \<open>template_0 =
     ''\<newline>'' @
     ''    <!DOCTYPE html>\<newline>'' @
     ''    <html>\<newline>'' @
     ''    <head>\<newline>'' @
     ''        <title>Test Report</title>\<newline>'' @
     ''        <style>\<newline>'' @
     ''            body { font-family: Arial, sans-serif; margin: 20px; }\<newline>'' @
     ''            .success { color: green; }\<newline>'' @
     ''            .failure { color: red; }\<newline>'' @
     ''            .info { color: blue; }\<newline>'' @
     ''            pre { background: #f5f5f5; padding: 10px; border-radius: 5px; }\<newline>'' @
     ''        </style>\<newline>'' @
     ''    </head>\<newline>'' @
     ''    <body>\<newline>'' @
     ''        <h1>Test Execution Report</h1>\<newline>'' @
     ''        <h2>Summary</h2>\<newline>'' @
     ''        <p class="''\<close>

definition template_1 :: string where
  \<open>template_1 =
     ''">Status: ''\<close>

definition template_2 :: string where
  \<open>template_2 =
     ''</p>\<newline>'' @
     ''        <p>Return Code: ''\<close>

definition template_3 :: string where
  \<open>template_3 =
     ''</p>\<newline>'' @
     ''        <p>Command: <code>''\<close>

definition template_4 :: string where
  \<open>template_4 =
     ''</code></p>\<newline>'' @
     ''        \<newline>'' @
     ''        <h2>Output</h2>\<newline>'' @
     ''        <pre>''\<close>

definition template_5 :: string where
  \<open>template_5 =
     ''</pre>\<newline>'' @
     ''        \<newline>'' @
     ''        ''\<close>

definition template_6 :: string where
  \<open>template_6 =
     ''\<newline>'' @
     ''    </body>\<newline>'' @
     ''    </html>\<newline>'' @
     ''    ''\<close>

definition errors_0 :: string where
  \<open>errors_0 =
     ''\<newline>'' @
     ''        <h2>Errors</h2>\<newline>'' @
     ''        <pre class="failure">''\<close>

definition errors_1 :: string where
  \<open>errors_1 =
     ''</pre>\<newline>'' @
     ''        ''\<close>

text \<open>The local variable \<open>stderr_section\<close>.\<close>

definition stderr_section :: "result_dict \<Rightarrow> py_error + string" where
  "stderr_section results =
     (if truthy (dict_get results ''stderr'') then
        (case dict_item results ''stderr'' of
           Inl e \<Rightarrow> Inl e
         | Inr v \<Rightarrow> Inr (errors_0 @ format_value v @ errors_1))
      else Inr [])"

text \<open>The local variable \<open>html_content\<close>: the template with its six fields filled in.\<close>

definition html_content :: "result_dict \<Rightarrow> py_error + string" where
  "html_content results =
     (let status = (if truthy (dict_get results ''success'') then ''PASSED'' else ''FAILED'');
          status_class = (if truthy (dict_get results ''success'') then ''success'' else ''failure'')
      in case stderr_section results of
           Inl e \<Rightarrow> Inl e
         | Inr section \<Rightarrow>
             Inr (template_0 @ status_class @
                  template_1 @ status @
                  template_2 @ format_value (dict_get_default results ''returncode'' (PyStr ''N/A'')) @
                  template_3 @ format_value (dict_get_default results ''command'' (PyStr ''N/A'')) @
                  template_4 @ format_value (dict_get_default results ''stdout'' (PyStr ''No output'')) @
                  template_5 @ section @
                  template_6))"

definition create_test_report :: "result_dict \<Rightarrow> string \<Rightarrow> world \<Rightarrow> py_error + world" where
  "create_test_report results output_file w =
     (case html_content results of
        Inl e \<Rightarrow> Inl e
      | Inr html \<Rightarrow>
          if fs_writable w output_file then
            Inr (print (''Test report saved to: '' @ output_file)
                   (w\<lparr>files := (files w)(output_file \<mapsto> html)\<rparr>))
          else Inl (OSError output_file))"

section \<open>The words of the specification, for comparison with the code\<close>

text \<open>
  The profile catalog of the specification: a profile is a name, an argument list and
  optional environment overrides; \<open>catalog\<close> is the table of the eight presets.
\<close>

datatype profile_request =
  Smoke | Api | Ui | Integration | Performance | Parallel int | Coverage int | Browser string

record run_profile =
  name :: string
  arguments :: "string list"
  environment_overrides :: "(string \<times> string) list"

fun catalog :: "profile_request \<Rightarrow> run_profile" where
  "catalog Smoke =
     \<lparr>name = ''smoke'', arguments = [''-m'', ''smoke'', ''-v''], environment_overrides = []\<rparr>"
| "catalog Api =
     \<lparr>name = ''api'', arguments = [''-m'', ''api'', ''-v''], environment_overrides = []\<rparr>"
| "catalog Ui =
     \<lparr>name = ''ui'', arguments = [''-m'', ''ui'', ''-v''], environment_overrides = []\<rparr>"
| "catalog Integration =
     \<lparr>name = ''integration'', arguments = [''-m'', ''integration'', ''-v''],
      environment_overrides = []\<rparr>"
| "catalog Performance =
     \<lparr>name = ''performance'', arguments = [''-m'', ''slow'', ''-v'', ''--tb=short''],
      environment_overrides = []\<rparr>"
| "catalog (Parallel workers) =
     \<lparr>name = ''parallel'', arguments = [''-n'', str_int workers, ''-v''],
      environment_overrides = []\<rparr>"
| "catalog (Coverage min_percent) =
     \<lparr>name = ''coverage'',
      arguments = [''--cov=src'', ''--cov-report=html'', ''--cov-report=term-missing'',
                   ''--cov-fail-under='' @ str_int min_percent, ''-v''],
      environment_overrides = []\<rparr>"
| "catalog (Browser browser) =
     \<lparr>name = ''browser'', arguments = [''-v''],
      environment_overrides = [(''PLAYWRIGHT_BROWSER'', browser)]\<rparr>"

text \<open>\<open>TestRunner.run(P)\<close> of the specification is, in the code, the method of that name.\<close>

fun run :: "world \<Rightarrow> test_runner \<Rightarrow> profile_request \<Rightarrow> result_dict \<times> world" where
  "run w self Smoke = run_smoke_tests w self"
| "run w self Api = run_api_tests w self"
| "run w self Ui = run_ui_tests w self"
| "run w self Integration = run_integration_tests w self"
| "run w self Performance = run_performance_tests w self"
| "run w self (Parallel workers) = run_parallel_tests w self workers"
| "run w self (Coverage min_coverage) = run_with_coverage w self min_coverage"
| "run w self (Browser browser) = run_browser_specific_tests w self browser"

text \<open>
  Merging the overrides of a profile over the ambient environment, overrides winning.
\<close>

definition merge_env :: "environ \<Rightarrow> (string \<times> string) list \<Rightarrow> environ" where
  "merge_env ambient overrides = fold (\<lambda>(k, v). AList.update k v) overrides ambient"

text \<open>
  The specification speaks of glob patterns and fixes no syntax.  \<open>wildcard_match\<close> is
  the part all glob dialects share: \<open>*\<close> stands for any run of characters, \<open>?\<close> for one
  character, every other character for itself, against the whole path.  Bracket
  expressions differ between dialects and are left out: \<open>glob_match\<close> gives no answer for a
  pattern with \<open>[\<close> in it.
\<close>

fun wildcard_match :: "string \<Rightarrow> string \<Rightarrow> bool" where
  "wildcard_match [] [] = True"
| "wildcard_match [] (c # cs) = False"
| "wildcard_match (p # ps) [] = (p = CHR ''*'' \<and> wildcard_match ps [])"
| "wildcard_match (p # ps) (c # cs) =
     (if p = CHR ''*'' then wildcard_match ps (c # cs) \<or> wildcard_match (p # ps) cs
      else (p = CHR ''?'' \<or> p = c) \<and> wildcard_match ps cs)"

definition glob_match :: "string \<Rightarrow> string \<Rightarrow> bool option" where
  "glob_match pattern path =
     (if CHR ''['' \<in> set pattern then None else Some (wildcard_match pattern path))"

text \<open>
  Reading a report back.  The specification asks that re-parsing give the captured text
  and fixes no parser; this is the rule of an HTML tokenizer for character data.  The
  text of an element runs from the end of its start tag to the next tag: a \<open><\<close> followed
  by a letter, \<open>/\<close>, \<open>!\<close> or \<open>?\<close>.  Any other \<open><\<close> is text.  In the text the character
  references of \<open><\<close>, \<open>>\<close> and \<open>&\<close> are decoded.
\<close>

definition ascii_letter :: "char \<Rightarrow> bool" where
  "ascii_letter c =
     (c \<in> set ''abcdefghijklmnopqrstuvwxyz'' \<or> c \<in> set ''ABCDEFGHIJKLMNOPQRSTUVWXYZ'')"

fun tag_opens :: "string \<Rightarrow> bool" where
  "tag_opens (a # b # rest) =
     (a = CHR ''<'' \<and> (ascii_letter b \<or> b = CHR ''/'' \<or> b = CHR ''!'' \<or> b = CHR ''?''))"
| "tag_opens s = False"

fun text_before_tag :: "string \<Rightarrow> string" where
  "text_before_tag [] = []"
| "text_before_tag (c # cs) = (if tag_opens (c # cs) then [] else c # text_before_tag cs)"

fun split_on :: "string \<Rightarrow> string \<Rightarrow> (string \<times> string) option" where
  "split_on needle [] = (if needle = [] then Some ([], []) else None)"
| "split_on needle (c # cs) =
     (if take (length needle) (c # cs) = needle then Some ([], drop (length needle) (c # cs))
      else (case split_on needle cs of
              None \<Rightarrow> None
            | Some (before, after) \<Rightarrow> Some (c # before, after)))"

function html_unescape :: "string \<Rightarrow> string" where
  "html_unescape [] = []"
| "html_unescape (c # cs) =
     (if c = CHR ''&'' \<and> take 3 cs = ''lt;'' then CHR ''<'' # html_unescape (drop 3 cs)
      else if c = CHR ''&'' \<and> take 3 cs = ''gt;'' then CHR ''>'' # html_unescape (drop 3 cs)
      else if c = CHR ''&'' \<and> take 4 cs = ''amp;'' then CHR ''&'' # html_unescape (drop 4 cs)
      else c # html_unescape cs)"
  by pat_completeness auto
termination
  by (relation "measure length") auto

definition element_text :: "string \<Rightarrow> string \<Rightarrow> string option" where
  "element_text start_tag document =
     (case split_on start_tag document of
        None \<Rightarrow> None
      | Some (before, after) \<Rightarrow> Some (html_unescape (text_before_tag after)))"

definition pre_tag :: string where
  \<open>pre_tag = ''<pre>''\<close>

definition pre_failure_tag :: string where
  \<open>pre_failure_tag = ''<pre class="failure">''\<close>

definition reparse_output :: "py_error + string \<Rightarrow> string option" where
  "reparse_output document =
     (case document of Inl e \<Rightarrow> None | Inr html \<Rightarrow> element_text pre_tag html)"

definition reparse_errors :: "py_error + string \<Rightarrow> string option" where
  "reparse_errors document =
     (case document of Inl e \<Rightarrow> None | Inr html \<Rightarrow> element_text pre_failure_tag html)"

section \<open>A concrete world for the examples\<close>

definition example_world :: "proc_outcome \<Rightarrow> world" where
  "example_world outcome =
     \<lparr>sys_executable = ''/usr/bin/python3'',
      os_environ = [(''PATH'', ''/usr/bin''), (''HOME'', ''/root'')],
      os_cwd = ''/repo'',
      path_str = (\<lambda>p. p),
      watchdog_installed = True,
      subprocess_run = (\<lambda>history call. outcome),
      spawned = [],
      console = [],
      fs_writable = (\<lambda>path. True),
      files = Map.empty\<rparr>"

definition example_runner :: test_runner where
  "example_runner = TestRunner_init (example_world (Completed 0 [] [])) None"

definition example_event :: fs_event where
  "example_event = \<lparr>src_path = ''tests/test_a.py'', is_directory = False\<rparr>"

section \<open>Devices for the proofs about the report text\<close>

text \<open>
  \<open>no_match_in needle p\<close>: the needle cannot begin at any position of \<open>p\<close>, whatever text
  follows \<open>p\<close>.  The last line of \<open>template_4\<close> and of \<open>errors_0\<close> is the start tag of
  the element that holds the captured text; the text before it is named apart.
\<close>

fun compatible :: "string \<Rightarrow> string \<Rightarrow> bool" where
  "compatible [] s = True"
| "compatible (n # ns) [] = True"
| "compatible (n # ns) (c # cs) = (n = c \<and> compatible ns cs)"

fun no_match_in :: "string \<Rightarrow> string \<Rightarrow> bool" where
  "no_match_in needle [] = True"
| "no_match_in needle (c # cs) = (\<not> compatible needle (c # cs) \<and> no_match_in needle cs)"

definition template_4_head :: string where
  \<open>template_4_head =
     ''</code></p>\<newline>'' @
     ''        \<newline>'' @
     ''        <h2>Output</h2>\<newline>'' @
     ''        ''\<close>

definition errors_0_head :: string where
  \<open>errors_0_head =
     ''\<newline>'' @
     ''        <h2>Errors</h2>\<newline>'' @
     ''        ''\<close>

section \<open>Theorems\<close>

subsection \<open>Helper lemmas\<close>

lemma spawned_run_pytest:
  "spawned (snd (run_pytest w self args env_arg)) = spawned w @ [pytest_call w self args env_arg]"
  by (simp add: run_pytest_def Let_def split: proc_outcome.split)

lemma update_nonempty: "AList.update k v al \<noteq> []"
  by (cases al) auto

lemma run_pytest_ambient:
  "run_pytest w self args None = run_pytest w self args (Some (os_environ w))"
  by (simp add: run_pytest_def pytest_call_def)

lemma run_eq_run_pytest:
  "run w self P =
     run_pytest w self (arguments (catalog P))
       (Some (merge_env (os_environ w) (environment_overrides (catalog P))))"
  by (cases P)
     (simp_all add: run_smoke_tests_def run_api_tests_def run_ui_tests_def
        run_integration_tests_def run_performance_tests_def run_parallel_tests_def
        run_with_coverage_def run_browser_specific_tests_def Let_def merge_env_def
        run_pytest_ambient)

lemma merge_env_empty: "merge_env ambient overrides = [] \<longleftrightarrow> ambient = [] \<and> overrides = []"
  unfolding merge_env_def
proof (induction overrides arbitrary: ambient)
  case Nil
  show ?case by simp
next
  case (Cons kv overrides)
  obtain k v where kv: "kv = (k, v)" by (cases kv)
  show ?case using Cons[of "AList.update k v ambient"] by (simp add: kv update_nonempty)
qed

lemma pytest_call_merged:
  "pytest_call w self args (Some (merge_env (os_environ w) overrides)) =
     \<lparr>cmd = [sys_executable w, ''-m'', ''pytest''] @ args,
      cwd = base_dir self,
      env = merge_env (os_environ w) overrides\<rparr>"
proof (cases "merge_env (os_environ w) overrides = []")
  case True
  then have "os_environ w = []"
    by (simp add: merge_env_empty)
  with True show ?thesis
    by (simp add: pytest_call_def pytest_cmd_def)
next
  case False
  then show ?thesis
    by (simp add: pytest_call_def pytest_cmd_def)
qed

lemma str_int_90: "str_int 90 = ''90''"
  by (simp add: str_int_def digit_char_def)

lemma stderr_section_total:
  "stderr_section results =
     Inr (if truthy (dict_get results ''stderr'')
          then errors_0 @ format_value (dict_get results ''stderr'') @ errors_1 else [])"
  by (auto simp: stderr_section_def dict_get_def dict_item_def split: option.splits)

lemma html_content_total:
  "html_content results =
     Inr (template_0 @ (if truthy (dict_get results ''success'') then ''success'' else ''failure'') @
          template_1 @ (if truthy (dict_get results ''success'') then ''PASSED'' else ''FAILED'') @
          template_2 @ format_value (dict_get_default results ''returncode'' (PyStr ''N/A'')) @
          template_3 @ format_value (dict_get_default results ''command'' (PyStr ''N/A'')) @
          template_4 @ format_value (dict_get_default results ''stdout'' (PyStr ''No output'')) @
          template_5 @
          (if truthy (dict_get results ''stderr'')
           then errors_0 @ format_value (dict_get results ''stderr'') @ errors_1 else []) @
          template_6)"
  by (simp add: html_content_def stderr_section_total Let_def)

subsection \<open>The result of a run\<close>

text \<open>
  C1, as the code has it.  Whenever \<open>subprocess.run\<close> returns, the child having ended with
  return code \<open>rc\<close>, the result that \<open>_run_pytest\<close> returns has \<open>success\<close> equal to
  \<open>rc == 0\<close> and \<open>returncode\<close> equal to \<open>rc\<close>.  When the child ran to its end but
  \<open>subprocess.run\<close> raises because a captured stream is not valid text, the result is
  that of a failure to start, whatever the return code: \<open>success\<close> false, the text of the
  exception under \<open>error\<close>, and no \<open>returncode\<close>.
\<close>

theorem run_result_succeeded_iff_exit_zero:
  "(subprocess_run w (spawned w) (pytest_call w self args env_arg) = Completed rc out err \<longrightarrow>
      fst (run_pytest w self args env_arg) ''success'' = Some (PyBool (rc = 0)) \<and>
      fst (run_pytest w self args env_arg) ''returncode'' = Some (PyInt rc)) \<and>
   (subprocess_run w (spawned w) (pytest_call w self args env_arg) = Undecodable rc msg \<longrightarrow>
      fst (run_pytest w self args env_arg) ''success'' = Some (PyBool False) \<and>
      fst (run_pytest w self args env_arg) ''error'' = Some (PyStr msg) \<and>
      fst (run_pytest w self args env_arg) ''returncode'' = None)"
  by (simp add: run_pytest_def Let_def)

theorem run_result_succeeded_iff_exit_zero_witness:
  "fst (run_pytest (example_world (Completed 2 [] [])) example_runner [''-v''] None) ''success''
     = Some (PyBool False) \<and>
   fst (run_pytest (example_world (Completed 2 [] [])) example_runner [''-v''] None) ''returncode''
     = Some (PyInt 2) \<and>
   fst (run_pytest (example_world (Completed 0 ''ok'' [])) example_runner [''-v''] None) ''success''
     = Some (PyBool True) \<and>
   fst (run_pytest (example_world (Undecodable 0 ''invalid start byte'')) example_runner [''-v''] None)
     ''returncode'' = None"
  using run_result_succeeded_iff_exit_zero
          [of "example_world (Completed 2 [] [])" example_runner "[''-v'']" None 2 "[]" "[]" "[]"]
        run_result_succeeded_iff_exit_zero
          [of "example_world (Completed 0 ''ok'' [])" example_runner "[''-v'']" None 0 "''ok''" "[]" "[]"]
        run_result_succeeded_iff_exit_zero
          [of "example_world (Undecodable 0 ''invalid start byte'')" example_runner "[''-v'']" None
              0 "[]" "[]" "''invalid start byte''"]
  by (simp add: example_world_def)

text \<open>
  C1, as the specification states it, fails.  A child that is started, prints bytes that
  are not valid text and ends with return code 0 is a run that was started and whose exit
  code is 0, yet the result has \<open>success\<close> false and no \<open>returncode\<close>.
\<close>

theorem run_result_undecodable_counterexample:
  "child_exit_code (subprocess_run (example_world (Undecodable 0 ''invalid start byte'')) []
      (pytest_call (example_world (Undecodable 0 ''invalid start byte'')) example_runner [''-v''] None))
     = Some 0 \<and>
   fst (run_pytest (example_world (Undecodable 0 ''invalid start byte'')) example_runner [''-v''] None)
     ''success'' = Some (PyBool False) \<and>
   fst (run_pytest (example_world (Undecodable 0 ''invalid start byte'')) example_runner [''-v''] None)
     ''returncode'' = None"
  by (simp add: run_pytest_def Let_def example_world_def)

text \<open>
  C2. \<open>_run_pytest\<close> returns a dictionary on both outcomes of \<open>subprocess.run\<close>.  A
  non-zero return code gives an ordinary result with \<open>success\<close> false and that return code.
  An exception raised by \<open>subprocess.run\<close> (the program could not be started) gives a
  result with \<open>success\<close> false, the key \<open>error\<close> holding the text of the exception, which is
  non-empty when that text is, and no \<open>returncode\<close>, \<open>stdout\<close> or \<open>stderr\<close> key.
\<close>

theorem executor_reports_failure_as_data:
  "(subprocess_run w (spawned w) (pytest_call w self args env_arg) = Completed rc out err \<and> rc \<noteq> 0
      \<longrightarrow>
      fst (run_pytest w self args env_arg) ''success'' = Some (PyBool False) \<and>
      fst (run_pytest w self args env_arg) ''returncode'' = Some (PyInt rc) \<and>
      fst (run_pytest w self args env_arg) ''error'' = None) \<and>
   (subprocess_run w (spawned w) (pytest_call w self args env_arg) = Raised msg \<longrightarrow>
      fst (run_pytest w self args env_arg) ''success'' = Some (PyBool False) \<and>
      fst (run_pytest w self args env_arg) ''error'' = Some (PyStr msg) \<and>
      (msg \<noteq> [] \<longrightarrow> fst (run_pytest w self args env_arg) ''error'' \<noteq> Some (PyStr [])) \<and>
      fst (run_pytest w self args env_arg) ''returncode'' = None \<and>
      fst (run_pytest w self args env_arg) ''stdout'' = None \<and>
      fst (run_pytest w self args env_arg) ''stderr'' = None)"
  by (simp add: run_pytest_def Let_def)

theorem executor_reports_failure_as_data_witness:
  "fst (run_pytest (example_world (Completed 2 [] [])) example_runner [''-v''] None) ''success''
     = Some (PyBool False) \<and>
   fst (run_pytest (example_world (Completed 2 [] [])) example_runner [''-v''] None) ''returncode''
     = Some (PyInt 2) \<and>
   fst (run_pytest (example_world (Raised ''[Errno 2] No such file or directory'')) example_runner
         [''-v''] None) ''success'' = Some (PyBool False) \<and>
   fst (run_pytest (example_world (Raised ''[Errno 2] No such file or directory'')) example_runner
         [''-v''] None) ''error'' = Some (PyStr ''[Errno 2] No such file or directory'') \<and>
   fst (run_pytest (example_world (Raised ''[Errno 2] No such file or directory'')) example_runner
         [''-v''] None) ''error'' \<noteq> Some (PyStr []) \<and>
   fst (run_pytest (example_world (Raised ''[Errno 2] No such file or directory'')) example_runner
         [''-v''] None) ''returncode'' = None"
  using executor_reports_failure_as_data
          [of "example_world (Completed 2 [] [])" example_runner "[''-v'']" None 2 "[]" "[]" "[]"]
        executor_reports_failure_as_data
          [of "example_world (Raised ''[Errno 2] No such file or directory'')" example_runner
              "[''-v'']" None 0 "[]" "[]" "''[Errno 2] No such file or directory''"]
  by (simp add: example_world_def)

subsection \<open>The command of a profile\<close>

text \<open>
  C3. For every profile \<open>P\<close> of the catalog, the method of that profile starts exactly one
  process; its command is the interpreter, \<open>-m\<close>, \<open>pytest\<close> followed by the arguments of
  \<open>P\<close>, element for element and in order; and the method returns what \<open>_run_pytest\<close>
  returns, unchanged.
\<close>

theorem run_builds_prefix_then_profile_arguments:
  "spawned (snd (run w self P)) =
     spawned w @
     [\<lparr>cmd = [sys_executable w, ''-m'', ''pytest''] @ arguments (catalog P),
       cwd = base_dir self,
       env = merge_env (os_environ w) (environment_overrides (catalog P))\<rparr>] \<and>
   take 3 (cmd (last (spawned (snd (run w self P))))) = [sys_executable w, ''-m'', ''pytest''] \<and>
   drop 3 (cmd (last (spawned (snd (run w self P))))) = arguments (catalog P) \<and>
   run w self P =
     run_pytest w self (arguments (catalog P))
       (Some (merge_env (os_environ w) (environment_overrides (catalog P))))"
  by (simp add: run_eq_run_pytest spawned_run_pytest pytest_call_merged)

text \<open>
  C7. The smoke profile runs the command with the suffix \<open>-m smoke -v\<close>; the coverage
  profile with threshold 90 has \<open>--cov-fail-under=90\<close> in its suffix, and with any
  threshold \<open>n\<close> the suffix is the fixed coverage template with \<open>str(n)\<close> after
  \<open>--cov-fail-under=\<close>.
\<close>

theorem catalog_smoke_and_coverage_arguments:
  "drop 3 (cmd (last (spawned (snd (run_smoke_tests w self))))) = [''-m'', ''smoke'', ''-v''] \<and>
   cmd (last (spawned (snd (run_smoke_tests w self)))) =
     [sys_executable w, ''-m'', ''pytest'', ''-m'', ''smoke'', ''-v''] \<and>
   ''--cov-fail-under=90'' \<in> set (drop 3 (cmd (last (spawned (snd (run_with_coverage w self 90)))))) \<and>
   drop 3 (cmd (last (spawned (snd (run_with_coverage w self n))))) =
     [''--cov=src'', ''--cov-report=html'', ''--cov-report=term-missing'',
      ''--cov-fail-under='' @ str_int n, ''-v'']"
  by (simp add: run_smoke_tests_def run_with_coverage_def spawned_run_pytest pytest_call_def
        pytest_cmd_def str_int_90 Let_def)

text \<open>
  C8. \<open>run_browser_specific_tests\<close> runs the child process in the ambient environment with
  \<open>PLAYWRIGHT_BROWSER\<close> set to the requested browser; every other variable has the value
  it has in the ambient environment.
\<close>

theorem browser_environment_overrides_ambient:
  "map_of (env (last (spawned (snd (run_browser_specific_tests w self browser)))))
       ''PLAYWRIGHT_BROWSER'' = Some browser \<and>
   (\<forall>k. k \<noteq> ''PLAYWRIGHT_BROWSER'' \<longrightarrow>
      map_of (env (last (spawned (snd (run_browser_specific_tests w self browser))))) k
        = map_of (os_environ w) k) \<and>
   cmd (last (spawned (snd (run_browser_specific_tests w self browser)))) =
     [sys_executable w, ''-m'', ''pytest'', ''-v'']"
  by (simp add: run_browser_specific_tests_def spawned_run_pytest pytest_call_def pytest_cmd_def
        Let_def update_nonempty update_conv')

theorem browser_environment_overrides_ambient_witness:
  "map_of (env (last (spawned (snd (run_browser_specific_tests
       (example_world (Completed 0 [] [])) example_runner ''firefox'')))))
     ''PLAYWRIGHT_BROWSER'' = Some ''firefox'' \<and>
   ''PATH'' \<noteq> ''PLAYWRIGHT_BROWSER'' \<and>
   map_of (env (last (spawned (snd (run_browser_specific_tests
       (example_world (Completed 0 [] [])) example_runner ''firefox''))))) ''PATH''
     = Some ''/usr/bin''"
  using browser_environment_overrides_ambient
          [of "example_world (Completed 0 [] [])" example_runner "''firefox''"]
  by (simp add: example_world_def)

subsection \<open>The report\<close>

text \<open>
  C6. The report text is a function of the five keys it reads: two results that agree on
  \<open>success\<close>, \<open>returncode\<close>, \<open>command\<close>, \<open>stdout\<close> and \<open>stderr\<close> (identical results
  among them) give the same text and the same effect of \<open>create_test_report\<close>; the file
  written holds exactly that text.  For a successful result with return code 0 and empty
  streams the text is the template with \<open>PASSED\<close> as its status.
\<close>

theorem report_deterministic_and_passed:
  "(results ''success'' = results' ''success'' \<and> results ''returncode'' = results' ''returncode'' \<and>
    results ''command'' = results' ''command'' \<and> results ''stdout'' = results' ''stdout'' \<and>
    results ''stderr'' = results' ''stderr'' \<longrightarrow>
      html_content results = html_content results' \<and>
      create_test_report results output_file w = create_test_report results' output_file w) \<and>
   (fs_writable w output_file \<longrightarrow>
      map_sum id (\<lambda>w'. files w' output_file) (create_test_report results output_file w) =
        map_sum id Some (html_content results)) \<and>
   html_content [''success'' \<mapsto> PyBool True, ''returncode'' \<mapsto> PyInt 0,
                 ''stdout'' \<mapsto> PyStr [], ''stderr'' \<mapsto> PyStr [], ''command'' \<mapsto> PyStr c]
     = Inr (template_0 @ ''success'' @ template_1 @ ''PASSED'' @ template_2 @ ''0'' @
            template_3 @ c @ template_4 @ template_5 @ template_6)"
proof (intro conjI impI)
  assume a: "results ''success'' = results' ''success'' \<and> results ''returncode'' = results' ''returncode'' \<and>
    results ''command'' = results' ''command'' \<and> results ''stdout'' = results' ''stdout'' \<and>
    results ''stderr'' = results' ''stderr''"
  then show h: "html_content results = html_content results'"
    by (simp add: html_content_total dict_get_def dict_get_default_def)
  then show "create_test_report results output_file w = create_test_report results' output_file w"
    by (simp add: create_test_report_def)
next
  assume "fs_writable w output_file"
  then show "map_sum id (\<lambda>w'. files w' output_file) (create_test_report results output_file w) =
        map_sum id Some (html_content results)"
    by (simp add: create_test_report_def html_content_total print_def)
next
  show "html_content [''success'' \<mapsto> PyBool True, ''returncode'' \<mapsto> PyInt 0,
                 ''stdout'' \<mapsto> PyStr [], ''stderr'' \<mapsto> PyStr [], ''command'' \<mapsto> PyStr c]
     = Inr (template_0 @ ''success'' @ template_1 @ ''PASSED'' @ template_2 @ ''0'' @
            template_3 @ c @ template_4 @ template_5 @ template_6)"
    by (simp add: html_content_total dict_get_def dict_get_default_def str_int_def digit_char_def)
qed

theorem report_deterministic_and_passed_witness:
  "html_content [''success'' \<mapsto> PyBool True, ''error'' \<mapsto> PyStr ''x''] =
   html_content [''success'' \<mapsto> PyBool True] \<and>
   map_sum id (\<lambda>w'. files w' ''r.html'')
     (create_test_report [''success'' \<mapsto> PyBool True, ''error'' \<mapsto> PyStr ''x''] ''r.html''
        (example_world (Completed 0 [] []))) =
   map_sum id Some (html_content [''success'' \<mapsto> PyBool True, ''error'' \<mapsto> PyStr ''x''])"
proof -
  note t = report_deterministic_and_passed
          [of "[''success'' \<mapsto> PyBool True, ''error'' \<mapsto> PyStr ''x'']" "[''success'' \<mapsto> PyBool True]"
              "''r.html''" "example_world (Completed 0 [] [])" "[]"]
  from t have 1: "html_content [''success'' \<mapsto> PyBool True, ''error'' \<mapsto> PyStr ''x''] =
      html_content [''success'' \<mapsto> PyBool True]"
    by simp
  have "fs_writable (example_world (Completed 0 [] [])) ''r.html''"
    by (simp add: example_world_def)
  with t have 2: "map_sum id (\<lambda>w'. files w' ''r.html'')
     (create_test_report [''success'' \<mapsto> PyBool True, ''error'' \<mapsto> PyStr ''x''] ''r.html''
        (example_world (Completed 0 [] []))) =
     map_sum id Some (html_content [''success'' \<mapsto> PyBool True, ''error'' \<mapsto> PyStr ''x''])"
    by blast
  show ?thesis
    by (rule conjI[OF 1 2])
qed

lemma errors_0_nonempty: "errors_0 \<noteq> []"
  by (simp add: errors_0_def)

text \<open>
  C10. \<open>create_test_report\<close> never raises KeyError, whatever keys the result has: the
  document is the template with \<open>N/A\<close> for a missing return code or command, \<open>No output\<close>
  for a missing standard output, and the error section exactly when the key \<open>stderr\<close> is
  present with a truthy (for a string: non-empty) value.  With a writable output file it
  writes that document and prints where; a file that cannot be opened is the one failure.
  For the result of a run that could not be started the document shows \<open>FAILED\<close>, \<open>N/A\<close>
  and \<open>No output\<close> and has no error section.
\<close>

theorem report_total_on_startup_failure:
  "(let head =
      template_0 @
      (if (case results ''success'' of None \<Rightarrow> False | Some v \<Rightarrow> truthy v) then ''success'' else ''failure'') @
      template_1 @
      (if (case results ''success'' of None \<Rightarrow> False | Some v \<Rightarrow> truthy v) then ''PASSED'' else ''FAILED'') @
      template_2 @ (case results ''returncode'' of None \<Rightarrow> ''N/A'' | Some v \<Rightarrow> format_value v) @
      template_3 @ (case results ''command'' of None \<Rightarrow> ''N/A'' | Some v \<Rightarrow> format_value v) @
      template_4 @ (case results ''stdout'' of None \<Rightarrow> ''No output'' | Some v \<Rightarrow> format_value v) @
      template_5;
        section =
      (case results ''stderr'' of
         None \<Rightarrow> []
       | Some v \<Rightarrow> if truthy v then errors_0 @ format_value v @ errors_1 else [])
    in html_content results = Inr (head @ section @ template_6) \<and>
       (html_content results \<noteq> Inr (head @ template_6) \<longleftrightarrow>
          (\<exists>v. results ''stderr'' = Some v \<and> truthy v)) \<and>
       create_test_report results output_file w =
         (if fs_writable w output_file
          then Inr (print (''Test report saved to: '' @ output_file)
                      (w\<lparr>files := (files w)(output_file \<mapsto> head @ section @ template_6)\<rparr>))
          else Inl (OSError output_file))) \<and>
   (subprocess_run w (spawned w) (pytest_call w self args env_arg) = Raised msg \<longrightarrow>
      html_content (fst (run_pytest w self args env_arg)) =
        Inr (template_0 @ ''failure'' @ template_1 @ ''FAILED'' @ template_2 @ ''N/A'' @
             template_3 @ join '' '' ([sys_executable w, ''-m'', ''pytest''] @ args) @
             template_4 @ ''No output'' @ template_5 @ template_6))"
proof -
  let ?head = "template_0 @
      (if (case results ''success'' of None \<Rightarrow> False | Some v \<Rightarrow> truthy v) then ''success'' else ''failure'') @
      template_1 @
      (if (case results ''success'' of None \<Rightarrow> False | Some v \<Rightarrow> truthy v) then ''PASSED'' else ''FAILED'') @
      template_2 @ (case results ''returncode'' of None \<Rightarrow> ''N/A'' | Some v \<Rightarrow> format_value v) @
      template_3 @ (case results ''command'' of None \<Rightarrow> ''N/A'' | Some v \<Rightarrow> format_value v) @
      template_4 @ (case results ''stdout'' of None \<Rightarrow> ''No output'' | Some v \<Rightarrow> format_value v) @
      template_5"
  let ?section = "(case results ''stderr'' of
         None \<Rightarrow> []
       | Some v \<Rightarrow> if truthy v then errors_0 @ format_value v @ errors_1 else [])"
  have doc: "html_content results = Inr (?head @ ?section @ template_6)"
    by (simp add: html_content_total dict_get_def dict_get_default_def split: option.splits)
  have sec: "?section \<noteq> [] \<longleftrightarrow> (\<exists>v. results ''stderr'' = Some v \<and> truthy v)"
    using errors_0_nonempty by (auto split: option.splits)
  have iff: "html_content results \<noteq> Inr (?head @ template_6) \<longleftrightarrow>
          (\<exists>v. results ''stderr'' = Some v \<and> truthy v)"
    unfolding doc sec[symmetric] by simp
  have rep: "create_test_report results output_file w =
         (if fs_writable w output_file
          then Inr (print (''Test report saved to: '' @ output_file)
                      (w\<lparr>files := (files w)(output_file \<mapsto> ?head @ ?section @ template_6)\<rparr>))
          else Inl (OSError output_file))"
    unfolding create_test_report_def doc by simp
  have fail: "html_content (fst (run_pytest w self args env_arg)) =
        Inr (template_0 @ ''failure'' @ template_1 @ ''FAILED'' @ template_2 @ ''N/A'' @
             template_3 @ join '' '' ([sys_executable w, ''-m'', ''pytest''] @ args) @
             template_4 @ ''No output'' @ template_5 @ template_6)"
    if "subprocess_run w (spawned w) (pytest_call w self args env_arg) = Raised msg"
    using that
    by (simp add: html_content_total run_pytest_def Let_def dict_get_def dict_get_default_def
          pytest_cmd_def)
  show ?thesis
    unfolding Let_def using doc iff rep fail by blast
qed

theorem report_total_on_startup_failure_witness:
  "html_content (fst (run_pytest (example_world (Raised ''boom'')) example_runner [''-v''] None)) =
     Inr (template_0 @ ''failure'' @ template_1 @ ''FAILED'' @ template_2 @ ''N/A'' @
          template_3 @ ''/usr/bin/python3 -m pytest -v'' @ template_4 @ ''No output'' @
          template_5 @ template_6) \<and>
   html_content [''success'' \<mapsto> PyBool False, ''stderr'' \<mapsto> PyStr ''boom''] =
     Inr (template_0 @ ''failure'' @ template_1 @ ''FAILED'' @ template_2 @ ''N/A'' @
          template_3 @ ''N/A'' @ template_4 @ ''No output'' @ template_5 @
          errors_0 @ ''boom'' @ errors_1 @ template_6)"
proof -
  have r: "subprocess_run (example_world (Raised ''boom'')) (spawned (example_world (Raised ''boom'')))
             (pytest_call (example_world (Raised ''boom'')) example_runner [''-v''] None) = Raised ''boom''"
    by (simp add: example_world_def)
  note t = report_total_on_startup_failure
             [where results = "[''success'' \<mapsto> PyBool False, ''stderr'' \<mapsto> PyStr ''boom'']"
                and w = "example_world (Raised ''boom'')" and self = example_runner
                and args = "[''-v'']" and env_arg = None and msg = "''boom''"
                and output_file = "''r.html''"]
  from t r have 1: "html_content (fst (run_pytest (example_world (Raised ''boom'')) example_runner [''-v''] None)) =
     Inr (template_0 @ ''failure'' @ template_1 @ ''FAILED'' @ template_2 @ ''N/A'' @
          template_3 @ ''/usr/bin/python3 -m pytest -v'' @ template_4 @ ''No output'' @
          template_5 @ template_6)"
    by (simp add: example_world_def)
  from t have 2: "html_content [''success'' \<mapsto> PyBool False, ''stderr'' \<mapsto> PyStr ''boom''] =
     Inr (template_0 @ ''failure'' @ template_1 @ ''FAILED'' @ template_2 @ ''N/A'' @
          template_3 @ ''N/A'' @ template_4 @ ''No output'' @ template_5 @
          errors_0 @ ''boom'' @ errors_1 @ template_6)"
    by (simp add: Let_def)
  show ?thesis by (rule conjI[OF 1 2])
qed

subsection \<open>Captured text in the report\<close>

lemma take_eq_compatible: "take (length needle) (s @ X) = needle \<Longrightarrow> compatible needle s"
proof (induction needle s rule: compatible.induct)
  case (3 n ns c cs)
  then show ?case by auto
qed simp_all

lemma split_on_no_match:
  "no_match_in needle P \<Longrightarrow>
   split_on needle (P @ X) =
     (case split_on needle X of None \<Rightarrow> None | Some (b, r) \<Rightarrow> Some (P @ b, r))"
proof (induction P)
  case Nil
  then show ?case by (simp split: option.splits)
next
  case (Cons c cs)
  then have "take (length needle) ((c # cs) @ X) \<noteq> needle"
    using take_eq_compatible[of needle "c # cs" X] by auto
  with Cons show ?case by (simp split: option.splits)
qed

lemma split_on_skip:
  "needle = CHR ''<'' # ns \<Longrightarrow> CHR ''<'' \<notin> set a \<Longrightarrow>
   split_on needle (a @ rest) =
     (case split_on needle rest of None \<Rightarrow> None | Some (b, r) \<Rightarrow> Some (a @ b, r))"
  by (induction a) (auto split: option.splits)

lemma split_on_here: "needle \<noteq> [] \<Longrightarrow> split_on needle (needle @ rest) = Some ([], rest)"
  by (cases needle) simp_all

lemma html_unescape_plain: "CHR ''&'' \<notin> set s \<Longrightarrow> html_unescape s = s"
  by (induction s) auto

lemma tag_opens_first: "tag_opens (c # cs) \<Longrightarrow> c = CHR ''<''"
  by (cases cs) simp_all

lemma text_before_tag_plain:
  "CHR ''<'' \<notin> set s \<Longrightarrow> tag_opens rest \<Longrightarrow> text_before_tag (s @ rest) = s"
proof (induction s)
  case Nil
  then show ?case by (cases rest) simp_all
next
  case (Cons c s)
  then have "\<not> tag_opens (c # s @ rest)"
    using tag_opens_first[of c "s @ rest"] by auto
  with Cons show ?case by simp
qed

lemma template_4_split: "template_4 = template_4_head @ pre_tag"
  by (simp add: template_4_def template_4_head_def pre_tag_def)

lemma errors_0_split: "errors_0 = errors_0_head @ pre_failure_tag"
  by (simp add: errors_0_def errors_0_head_def pre_failure_tag_def)

lemma no_pre_tag:
  "no_match_in pre_tag template_0" "no_match_in pre_tag template_1"
  "no_match_in pre_tag template_2" "no_match_in pre_tag template_3"
  "no_match_in pre_tag template_4_head"
  by (simp_all add: pre_tag_def template_0_def template_1_def template_2_def template_3_def
        template_4_head_def)

lemma no_pre_failure_tag:
  "no_match_in pre_failure_tag template_0" "no_match_in pre_failure_tag template_1"
  "no_match_in pre_failure_tag template_2" "no_match_in pre_failure_tag template_3"
  "no_match_in pre_failure_tag template_4" "no_match_in pre_failure_tag template_5"
  "no_match_in pre_failure_tag errors_0_head"
  by (simp_all add: pre_failure_tag_def template_0_def template_1_def template_2_def template_3_def
        template_4_def template_5_def errors_0_head_def)

lemma tag_shapes:
  "pre_tag = CHR ''<'' # ''pre>''" "pre_tag \<noteq> []"
  "pre_failure_tag = CHR ''<'' # tl pre_failure_tag" "pre_failure_tag \<noteq> []"
  by (simp_all add: pre_tag_def pre_failure_tag_def)

lemma element_text_output:
  assumes sc: "CHR ''<'' \<notin> set sc" and st: "CHR ''<'' \<notin> set st"
    and rc: "CHR ''<'' \<notin> set rc" and cm: "CHR ''<'' \<notin> set command"
    and out: "CHR ''<'' \<notin> set out" "CHR ''&'' \<notin> set out"
  shows "element_text pre_tag
           (template_0 @ sc @ template_1 @ st @ template_2 @ rc @ template_3 @ command @
            template_4 @ out @ template_5 @ rest) = Some out"
proof -
  have "split_on pre_tag
           (template_0 @ sc @ template_1 @ st @ template_2 @ rc @ template_3 @ command @
            template_4_head @ pre_tag @ out @ template_5 @ rest)
        = Some (template_0 @ sc @ template_1 @ st @ template_2 @ rc @ template_3 @ command @
            template_4_head, out @ template_5 @ rest)"
    by (simp only: no_pre_tag[THEN split_on_no_match]
          split_on_skip[OF tag_shapes(1) sc] split_on_skip[OF tag_shapes(1) st]
          split_on_skip[OF tag_shapes(1) rc] split_on_skip[OF tag_shapes(1) cm]
          split_on_here[OF tag_shapes(2)] option.case prod.case append_Nil2)
  then have "element_text pre_tag
           (template_0 @ sc @ template_1 @ st @ template_2 @ rc @ template_3 @ command @
            template_4 @ out @ template_5 @ rest)
        = Some (html_unescape (text_before_tag (out @ template_5 @ rest)))"
    by (simp add: element_text_def template_4_split del: split_on.simps)
  moreover have "tag_opens (template_5 @ rest)"
    by (simp add: template_5_def)
  then have "text_before_tag (out @ template_5 @ rest) = out"
    using out(1) by (rule text_before_tag_plain[rotated])
  ultimately show ?thesis
    using out(2) by (simp add: html_unescape_plain)
qed

lemma element_text_errors:
  assumes sc: "CHR ''<'' \<notin> set sc" and st: "CHR ''<'' \<notin> set st"
    and rc: "CHR ''<'' \<notin> set rc" and cm: "CHR ''<'' \<notin> set command"
    and out: "CHR ''<'' \<notin> set out"
    and err: "CHR ''<'' \<notin> set err" "CHR ''&'' \<notin> set err"
  shows "element_text pre_failure_tag
           (template_0 @ sc @ template_1 @ st @ template_2 @ rc @ template_3 @ command @
            template_4 @ out @ template_5 @ (errors_0 @ err @ errors_1) @ rest) = Some err"
proof -
  have "split_on pre_failure_tag
           (template_0 @ sc @ template_1 @ st @ template_2 @ rc @ template_3 @ command @
            template_4 @ out @ template_5 @ errors_0_head @ pre_failure_tag @ err @ errors_1 @ rest)
        = Some (template_0 @ sc @ template_1 @ st @ template_2 @ rc @ template_3 @ command @
            template_4 @ out @ template_5 @ errors_0_head, err @ errors_1 @ rest)"
    by (simp only: no_pre_failure_tag[THEN split_on_no_match]
          split_on_skip[OF tag_shapes(3) sc] split_on_skip[OF tag_shapes(3) st]
          split_on_skip[OF tag_shapes(3) rc] split_on_skip[OF tag_shapes(3) cm]
          split_on_skip[OF tag_shapes(3) out]
          split_on_here[OF tag_shapes(4)] option.case prod.case append_Nil2)
  then have "element_text pre_failure_tag
           (template_0 @ sc @ template_1 @ st @ template_2 @ rc @ template_3 @ command @
            template_4 @ out @ template_5 @ (errors_0 @ err @ errors_1) @ rest)
        = Some (html_unescape (text_before_tag (err @ errors_1 @ rest)))"
    by (simp add: element_text_def errors_0_split del: split_on.simps)
  moreover have "tag_opens (errors_1 @ rest)"
    by (simp add: errors_1_def)
  then have "text_before_tag (err @ errors_1 @ rest) = err"
    using err(1) by (rule text_before_tag_plain[rotated])
  ultimately show ?thesis
    using err(2) by (simp add: html_unescape_plain)
qed


lemma status_text_plain:
  "CHR ''<'' \<notin> set (if b then ''success'' else ''failure'')"
  "CHR ''<'' \<notin> set (if b then ''PASSED'' else ''FAILED'')"
  by simp_all

lemma split_on_pre_tag_concrete:
  "split_on pre_tag (template_0 @ ''success'' @ template_1 @ ''PASSED'' @ template_2 @ ''0'' @
      template_3 @ ''pytest'' @ template_4 @ rest) =
   Some (template_0 @ ''success'' @ template_1 @ ''PASSED'' @ template_2 @ ''0'' @
      template_3 @ ''pytest'' @ template_4_head, rest)"
proof -
  have p: "CHR ''<'' \<notin> set ''success''" "CHR ''<'' \<notin> set ''PASSED''" "CHR ''<'' \<notin> set ''0''"
    "CHR ''<'' \<notin> set ''pytest''"
    by simp_all
  show ?thesis
    unfolding template_4_split
    by (simp only: no_pre_tag[THEN split_on_no_match] p[THEN split_on_skip[OF tag_shapes(1)]]
          split_on_here[OF tag_shapes(2)] option.case prod.case append_Nil2 append_assoc)
qed

text \<open>
  C5, as the code has it.  \<open>create_test_report\<close> does no escaping: for a result whose
  \<open>stdout\<close> and \<open>stderr\<close> are strings the document is the template with these strings put
  in as they are.  When the return code and the command as written in the document have
  no \<open><\<close>: if the standard output has neither \<open><\<close> nor \<open>&\<close>, reading the text of the
  first \<open>pre\<close> element back gives the standard output; and if the standard output has no
  \<open><\<close> and the standard error is not empty and has neither \<open><\<close> nor \<open>&\<close>, reading the text
  of the first \<open>pre\<close> element of class \<open>failure\<close> back gives the standard error.
\<close>

theorem report_embeds_text_verbatim:
  assumes "results ''stdout'' = Some (PyStr out)" and "results ''stderr'' = Some (PyStr err)"
  shows "html_content results =
           Inr (template_0 @ (if truthy (dict_get results ''success'') then ''success'' else ''failure'') @
                template_1 @ (if truthy (dict_get results ''success'') then ''PASSED'' else ''FAILED'') @
                template_2 @ format_value (dict_get_default results ''returncode'' (PyStr ''N/A'')) @
                template_3 @ format_value (dict_get_default results ''command'' (PyStr ''N/A'')) @
                template_4 @ out @
                template_5 @ (if err \<noteq> [] then errors_0 @ err @ errors_1 else []) @
                template_6) \<and>
         (CHR ''<'' \<notin> set (format_value (dict_get_default results ''returncode'' (PyStr ''N/A''))) \<and>
          CHR ''<'' \<notin> set (format_value (dict_get_default results ''command'' (PyStr ''N/A''))) \<and>
          CHR ''<'' \<notin> set out \<and> CHR ''&'' \<notin> set out \<longrightarrow>
            reparse_output (html_content results) = Some out) \<and>
         (CHR ''<'' \<notin> set (format_value (dict_get_default results ''returncode'' (PyStr ''N/A''))) \<and>
          CHR ''<'' \<notin> set (format_value (dict_get_default results ''command'' (PyStr ''N/A''))) \<and>
          CHR ''<'' \<notin> set out \<and>
          err \<noteq> [] \<and> CHR ''<'' \<notin> set err \<and> CHR ''&'' \<notin> set err \<longrightarrow>
            reparse_errors (html_content results) = Some err)"
proof (intro conjI impI)
  show eq: "html_content results =
           Inr (template_0 @ (if truthy (dict_get results ''success'') then ''success'' else ''failure'') @
                template_1 @ (if truthy (dict_get results ''success'') then ''PASSED'' else ''FAILED'') @
                template_2 @ format_value (dict_get_default results ''returncode'' (PyStr ''N/A'')) @
                template_3 @ format_value (dict_get_default results ''command'' (PyStr ''N/A'')) @
                template_4 @ out @
                template_5 @ (if err \<noteq> [] then errors_0 @ err @ errors_1 else []) @
                template_6)"
    using assms by (simp add: html_content_total dict_get_def dict_get_default_def)
  show "reparse_output (html_content results) = Some out"
    if "CHR ''<'' \<notin> set (format_value (dict_get_default results ''returncode'' (PyStr ''N/A''))) \<and>
        CHR ''<'' \<notin> set (format_value (dict_get_default results ''command'' (PyStr ''N/A''))) \<and>
        CHR ''<'' \<notin> set out \<and> CHR ''&'' \<notin> set out"
    unfolding eq reparse_output_def sum.case
    using that by (intro element_text_output status_text_plain) simp_all
  show "reparse_errors (html_content results) = Some err"
    if h: "CHR ''<'' \<notin> set (format_value (dict_get_default results ''returncode'' (PyStr ''N/A''))) \<and>
        CHR ''<'' \<notin> set (format_value (dict_get_default results ''command'' (PyStr ''N/A''))) \<and>
        CHR ''<'' \<notin> set out \<and>
        err \<noteq> [] \<and> CHR ''<'' \<notin> set err \<and> CHR ''&'' \<notin> set err"
  proof -
    from h have "err \<noteq> []" by simp
    then have "html_content results =
           Inr (template_0 @ (if truthy (dict_get results ''success'') then ''success'' else ''failure'') @
                template_1 @ (if truthy (dict_get results ''success'') then ''PASSED'' else ''FAILED'') @
                template_2 @ format_value (dict_get_default results ''returncode'' (PyStr ''N/A'')) @
                template_3 @ format_value (dict_get_default results ''command'' (PyStr ''N/A'')) @
                template_4 @ out @
                template_5 @ (errors_0 @ err @ errors_1) @
                template_6)"
      using eq by simp
    then show ?thesis
      unfolding reparse_errors_def
      using h
      by (simp only: sum.case)
         (intro element_text_errors status_text_plain, simp_all)
  qed
qed

theorem report_embeds_text_verbatim_witness:
  "reparse_output (html_content [''success'' \<mapsto> PyBool True, ''returncode'' \<mapsto> PyInt 0,
      ''stdout'' \<mapsto> PyStr ''2 passed'', ''stderr'' \<mapsto> PyStr ''warning'',
      ''command'' \<mapsto> PyStr ''python -m pytest -v'']) = Some ''2 passed'' \<and>
   reparse_errors (html_content [''success'' \<mapsto> PyBool True, ''returncode'' \<mapsto> PyInt 0,
      ''stdout'' \<mapsto> PyStr ''2 passed'', ''stderr'' \<mapsto> PyStr ''warning'',
      ''command'' \<mapsto> PyStr ''python -m pytest -v'']) = Some ''warning''"
proof -
  let ?d = "[''success'' \<mapsto> PyBool True, ''returncode'' \<mapsto> PyInt 0,
             ''stdout'' \<mapsto> PyStr ''2 passed'', ''stderr'' \<mapsto> PyStr ''warning'',
             ''command'' \<mapsto> PyStr ''python -m pytest -v'']"
  have a: "?d ''stdout'' = Some (PyStr ''2 passed'')" and b: "?d ''stderr'' = Some (PyStr ''warning'')"
    by simp_all
  have c: "CHR ''<'' \<notin> set (format_value (dict_get_default ?d ''returncode'' (PyStr ''N/A'')))"
    by (simp add: dict_get_default_def str_int_def digit_char_def)
  have d: "CHR ''<'' \<notin> set (format_value (dict_get_default ?d ''command'' (PyStr ''N/A'')))"
    by (simp add: dict_get_default_def)
  note t = report_embeds_text_verbatim [OF a b]
  have o: "CHR ''<'' \<notin> set ''2 passed'' \<and> CHR ''&'' \<notin> set ''2 passed''"
    by simp
  have e: "CHR ''<'' \<notin> set ''2 passed'' \<and> ''warning'' \<noteq> [] \<and>
           CHR ''<'' \<notin> set ''warning'' \<and> CHR ''&'' \<notin> set ''warning''"
    by simp
  show ?thesis
    by (rule conjI[OF t[THEN conjunct2, THEN conjunct1, THEN mp, OF conjI[OF c conjI[OF d o]]]
                      t[THEN conjunct2, THEN conjunct2, THEN mp, OF conjI[OF c conjI[OF d e]]]])
qed

text \<open>
  C5, as the specification states it, fails: with the standard output \<open><b>\<close> the document
  holds a \<open>b\<close> start tag inside the \<open>pre\<close> element, and reading the element's text back
  gives the empty text.
\<close>

theorem report_reparse_counterexample:
  "reparse_output (html_content [''success'' \<mapsto> PyBool True, ''returncode'' \<mapsto> PyInt 0,
      ''stdout'' \<mapsto> PyStr ''<b>'', ''stderr'' \<mapsto> PyStr [], ''command'' \<mapsto> PyStr ''pytest''])
   \<noteq> Some ''<b>''"
proof -
  have h: "html_content [''success'' \<mapsto> PyBool True, ''returncode'' \<mapsto> PyInt 0,
      ''stdout'' \<mapsto> PyStr ''<b>'', ''stderr'' \<mapsto> PyStr [], ''command'' \<mapsto> PyStr ''pytest'']
    = Inr (template_0 @ ''success'' @ template_1 @ ''PASSED'' @ template_2 @ ''0'' @
      template_3 @ ''pytest'' @ template_4 @ (''<b>'' @ template_5 @ template_6))"
    by (simp add: html_content_total dict_get_def dict_get_default_def str_int_def digit_char_def)
  show ?thesis
    unfolding h reparse_output_def sum.case element_text_def split_on_pre_tag_concrete
    by (simp add: ascii_letter_def)
qed


subsection \<open>The watch session\<close>

lemma endswith_iff: "endswith s suf \<longleftrightarrow> (\<exists>pre. s = pre @ suf)"
proof
  assume "endswith s suf"
  then have "s = take (length s - length suf) s @ suf"
    by (metis append_take_drop_id endswith_def)
  then show "\<exists>pre. s = pre @ suf" ..
next
  assume "\<exists>pre. s = pre @ suf"
  then show "endswith s suf"
    by (auto simp: endswith_def)
qed

lemma event_selected_iff:
  "event_selected patterns event \<longleftrightarrow>
     \<not> is_directory event \<and> (\<exists>p \<in> set patterns. \<exists>pre. src_path event = pre @ replace_star p)"
  by (auto simp: event_selected_def list_ex_iff endswith_iff)

lemma dict_item_success: "\<exists>v. dict_item (fst (run_pytest w self args env_arg)) ''success'' = Inr v"
  by (simp add: run_pytest_def Let_def dict_item_def split: proc_outcome.split)

lemma spawned_print [simp]: "spawned (print s w) = spawned w"
  by (simp add: print_def)

lemma env_print [simp]: "sys_executable (print s w) = sys_executable w" "os_environ (print s w) = os_environ w"
  by (simp_all add: print_def)

lemma on_modified_effect:
  "\<exists>w'. on_modified w self_runner patterns event = Inr w' \<and>
        sys_executable w' = sys_executable w \<and> os_environ w' = os_environ w \<and>
        spawned w' = spawned w @
          (if event_selected patterns event
           then [pytest_call w self_runner [''-m'', ''smoke'', ''-v''] None] else [])"
proof (cases "event_selected patterns event")
  case False
  then show ?thesis by (simp add: on_modified_def)
next
  case True
  let ?w2 = "print ''Running tests...'' (print (''File changed: '' @ src_path event) w)"
  obtain result w3 where r: "run_smoke_tests ?w2 self_runner = (result, w3)"
    by (cases "run_smoke_tests ?w2 self_runner")
  then have rp: "run_pytest ?w2 self_runner [''-m'', ''smoke'', ''-v''] None = (result, w3)"
    by (simp add: run_smoke_tests_def)
  obtain v where v: "dict_item result ''success'' = Inr v"
    using dict_item_success[of ?w2 self_runner "[''-m'', ''smoke'', ''-v'']" None] rp by auto
  have s3: "spawned w3 = spawned w @ [pytest_call w self_runner [''-m'', ''smoke'', ''-v''] None]"
    using spawned_run_pytest[of ?w2 self_runner "[''-m'', ''smoke'', ''-v'']" None] rp
    by (simp add: pytest_call_def pytest_cmd_def)
  have e3: "sys_executable w3 = sys_executable w" "os_environ w3 = os_environ w"
    using rp by (auto simp: run_pytest_def Let_def split: proc_outcome.splits)
  show ?thesis
    using True r v s3 e3 by (simp add: on_modified_def Let_def)
qed


lemma pytest_call_smoke:
  "pytest_call w self_runner [''-m'', ''smoke'', ''-v''] None =
     \<lparr>cmd = [sys_executable w, ''-m'', ''pytest'', ''-m'', ''smoke'', ''-v''],
      cwd = base_dir self_runner, env = os_environ w\<rparr>"
  by (simp add: pytest_call_def pytest_cmd_def)









text \<open>
  C9, as the code has it.  A modification event starts a run exactly when its path is not
  a directory and ends with one of the patterns from which every \<open>*\<close> has been removed;
  with the default pattern \<open>*.py\<close> that is: ends with \<open>.py\<close>.  A selected event starts
  one smoke run; any other event changes nothing.
\<close>

theorem watch_trigger_is_suffix_match:
  "(event_selected patterns event \<longleftrightarrow>
      \<not> is_directory event \<and>
      (\<exists>p \<in> set patterns. \<exists>pre. src_path event = pre @ replace_star p)) \<and>
   (event_selected patterns event \<longrightarrow>
      (\<exists>w'. on_modified w self_runner patterns event = Inr w' \<and>
            spawned w' = spawned w @
              [\<lparr>cmd = [sys_executable w, ''-m'', ''pytest'', ''-m'', ''smoke'', ''-v''],
                cwd = base_dir self_runner, env = os_environ w\<rparr>])) \<and>
   (\<not> event_selected patterns event \<longrightarrow> on_modified w self_runner patterns event = Inr w) \<and>
   (event_selected (default_patterns None) event \<longleftrightarrow>
      \<not> is_directory event \<and> (\<exists>pre. src_path event = pre @ ''.py''))"
proof (intro conjI impI)
  show "event_selected patterns event \<longleftrightarrow>
      \<not> is_directory event \<and>
      (\<exists>p \<in> set patterns. \<exists>pre. src_path event = pre @ replace_star p)"
    by (rule event_selected_iff)
  show "\<exists>w'. on_modified w self_runner patterns event = Inr w' \<and>
            spawned w' = spawned w @
              [\<lparr>cmd = [sys_executable w, ''-m'', ''pytest'', ''-m'', ''smoke'', ''-v''],
                cwd = base_dir self_runner, env = os_environ w\<rparr>]"
    if "event_selected patterns event"
    using on_modified_effect[of w self_runner patterns event] that
    by (auto simp: pytest_call_smoke)
  show "on_modified w self_runner patterns event = Inr w" if "\<not> event_selected patterns event"
    using that by (simp add: on_modified_def)
  show "event_selected (default_patterns None) event \<longleftrightarrow>
      \<not> is_directory event \<and> (\<exists>pre. src_path event = pre @ ''.py'')"
    by (simp add: event_selected_iff default_patterns_def replace_star_def)
qed

theorem watch_trigger_is_suffix_match_witness:
  "event_selected [''*.py''] example_event \<and>
   runs_started (on_modified (example_world (Completed 0 [] [])) example_runner [''*.py'']
                   example_event) = 1 \<and>
   \<not> event_selected [''*.py''] (example_event\<lparr>is_directory := True\<rparr>) \<and>
   on_modified (example_world (Completed 0 [] [])) example_runner [''*.py'']
     (example_event\<lparr>is_directory := True\<rparr>) = Inr (example_world (Completed 0 [] []))"
proof -
  have sel: "event_selected [''*.py''] example_event"
    by (simp add: event_selected_def example_event_def endswith_def replace_star_def)
  have nsel: "\<not> event_selected [''*.py''] (example_event\<lparr>is_directory := True\<rparr>)"
    by (simp add: event_selected_def)
  note t1 = watch_trigger_is_suffix_match
              [where patterns = "[''*.py'']" and event = example_event
                 and w = "example_world (Completed 0 [] [])" and self_runner = example_runner]
  note t2 = watch_trigger_is_suffix_match
              [where patterns = "[''*.py'']" and event = "example_event\<lparr>is_directory := True\<rparr>"
                 and w = "example_world (Completed 0 [] [])" and self_runner = example_runner]
  from t1 sel have "\<exists>w'. on_modified (example_world (Completed 0 [] [])) example_runner [''*.py'']
        example_event = Inr w' \<and> length (spawned w') = 1"
    by (auto simp: example_world_def)
  then have r: "runs_started (on_modified (example_world (Completed 0 [] [])) example_runner [''*.py'']
                   example_event) = 1"
    by (auto simp: runs_started_def)
  from t2 nsel have u: "on_modified (example_world (Completed 0 [] [])) example_runner [''*.py'']
     (example_event\<lparr>is_directory := True\<rparr>) = Inr (example_world (Completed 0 [] []))"
    by blast
  show ?thesis
    using sel r nsel u by blast
qed

text \<open>
  C9, as the specification states it, fails.  The path \<open>tests/test_a.py\<close> matches the
  glob pattern \<open>tests/test_*.py\<close> and is not a directory, but the code compares the end
  of the path with \<open>tests/test_.py\<close> and starts nothing.
\<close>

theorem watch_glob_counterexample:
  "glob_match ''tests/test_*.py'' (src_path example_event) = Some True \<and>
   \<not> is_directory example_event \<and>
   on_modified (example_world (Completed 0 [] [])) example_runner [''tests/test_*.py''] example_event
     = Inr (example_world (Completed 0 [] []))"
  by (simp add: glob_match_def example_event_def on_modified_def event_selected_def endswith_def
        replace_star_def)

end
